theory Spec2Isabelle
  imports Complex_Main
begin

text \<open>
  The receiver layer of the unicast media server: the transport client of the JSON-RPC
  media center with its retry and fallback policy (\<open>KodiConnection\<close>), the MPV
  receiver with its session pointer (\<open>MpvReceiver\<close>), and the JSON-RPC query helper
  (\<open>KodiApi\<close>). Operations that wait for the outside world take its answers as
  arguments and return the changed object together with their result; a rejected promise
  or a thrown error is the left summand of the result.
\<close>

section \<open>JavaScript values\<close>

text \<open>
  Values of type \<open>any\<close> that the drivers pass around: command arguments, JSON-RPC
  parameters and results. Numbers are the finite ones; \<open>JUndefined\<close> is the value of
  a missing property or argument.
\<close>

datatype jsval =
    JUndefined
  | JNull
  | JBool bool
  | JNum real
  | JStr string
  | JArr "jsval list"
  | JObj "(string \<times> jsval) list"

text \<open>Truthiness, as \<open>!x\<close>, \<open>x || y\<close> and \<open>if ( x )\<close> read it.\<close>

fun truthy :: "jsval \<Rightarrow> bool" where
  "truthy JUndefined = False"
| "truthy JNull = False"
| "truthy (JBool b) = b"
| "truthy (JNum n) = (n \<noteq> 0)"
| "truthy (JStr s) = (s \<noteq> [])"
| "truthy (JArr xs) = True"
| "truthy (JObj kvs) = True"

text \<open>\<open>String.prototype.includes\<close>: the needle occurs somewhere in the string.\<close>

fun str_includes :: "string \<Rightarrow> string \<Rightarrow> bool" where
  "str_includes [] needle = (needle = [])"
| "str_includes (c # cs) needle =
     (take (length needle) (c # cs) = needle \<or> str_includes cs needle)"

section \<open>The transport client of the JSON-RPC media center (KodiConnection)\<close>

text \<open>
  A value caught by \<open>catch ( err )\<close>. The client only reads whether it is truthy and
  the properties \<open>code\<close>, \<open>message\<close>, \<open>data\<close>, \<open>errcode\<close>, \<open>errmessage\<close> and
  \<open>method\<close>; a missing property is \<open>None\<close>.
\<close>

record thrown =
  err_truthy :: bool
  err_code :: "string option"
  err_message :: "string option"
  err_data :: "string option"
  err_errcode :: "string option"
  err_errmessage :: "string option"
  err_method :: "string option"

text \<open>
  The error \<open>call\<close> raises. In the loop that opens the connection the caught value is
  thrown again as it is (\<open>Rethrown\<close>). After a request the client throws a new
  \<open>Error\<close> whose message is put together from the primary address, the command and
  one of three descriptions of the caught value; the parts are kept apart here instead of
  being concatenated.
\<close>

datatype wrapped_detail =
    MessageData string string
  | ErrCode string "string option" string
  | Other thrown

datatype call_error =
    Rethrown thrown
  | Wrapped string string wrapped_detail

text \<open>The \<open>jayson\<close> HTTP client that \<open>open\<close> builds, by the options it is given.\<close>

record http_client =
  hostname :: "string option"
  client_port :: nat
  client_path :: string
  credentials :: "(string \<times> string option) option"

record KodiConnection =
  address :: string
  port :: nat
  username :: "string option"
  password :: "string option"
  fallback :: "string option"
  usingFallback :: bool
  failedAttemptsAtConnecting :: nat
  client :: "http_client option"

text \<open>The constructor: not using the fallback, no failed attempt, no client.\<close>

definition KodiConnection_new ::
  "string \<Rightarrow> nat \<Rightarrow> string option \<Rightarrow> string option \<Rightarrow> string option \<Rightarrow> KodiConnection" where
  "KodiConnection_new a p u pw fb =
     \<lparr> address = a, port = p, username = u, password = pw, fallback = fb,
       usingFallback = False, failedAttemptsAtConnecting = 0, client = None \<rparr>"

definition kodi_connected :: "KodiConnection \<Rightarrow> bool" where
  "kodi_connected c = (client c \<noteq> None)"

text \<open>
  \<open>open\<close> builds the client for the active address. As written it only constructs an
  object, so the assignment itself cannot be refused by the device.
\<close>

definition open_client :: "KodiConnection \<Rightarrow> KodiConnection" where
  "open_client c =
     c\<lparr> client := Some
         \<lparr> hostname = (if usingFallback c then fallback c else Some (address c)),
           client_port = port c,
           client_path = ''/jsonrpc'',
           credentials = (case username c of
                            None \<Rightarrow> None
                          | Some u \<Rightarrow> Some (u, password c)) \<rparr> \<rparr>"

definition connectivity_shaped :: "thrown \<Rightarrow> bool" where
  "connectivity_shaped err =
     (err_truthy err \<and>
      (err_code err = Some ''ECONNREFUSED'' \<or> err_code err = Some ''ETIMEDOUT''))"

text \<open>\<open>useFallback\<close> returns its verdict together with the updated connection.\<close>

definition useFallback :: "KodiConnection \<Rightarrow> thrown \<Rightarrow> bool \<times> KodiConnection" where
  "useFallback c err =
     (if connectivity_shaped err then
        (let c1 = c\<lparr> failedAttemptsAtConnecting := failedAttemptsAtConnecting c + 1 \<rparr> in
         if failedAttemptsAtConnecting c1 > 1 \<or> fallback c1 = None then (False, c1)
         else (True, c1\<lparr> usingFallback := \<not> usingFallback c1 \<rparr>))
      else (False, c))"

text \<open>\<open>close\<close>: the client lifetime is never set by this class, so only the client goes.\<close>

definition close :: "KodiConnection \<Rightarrow> KodiConnection" where
  "close c = c\<lparr> client := None \<rparr>"

text \<open>
  What the outside world answers is a script: one entry for every \<open>await this.open()\<close>
  (\<open>None\<close> when it resolves, the thrown value otherwise) and one for every request
  sent (the thrown value or the reply's \<open>result\<close>). A call that is still waiting when
  its script ends has not returned: \<open>Pending\<close>.
\<close>

datatype 'a outcome = Returned 'a | Raised call_error | Pending

record script =
  opens :: "thrown option list"
  requests :: "(thrown + jsval) list"

text \<open>The loop \<open>while ( !this.connected )\<close> at the head of \<open>call\<close>.\<close>

fun ensure_open ::
  "KodiConnection \<Rightarrow> thrown option list \<Rightarrow> unit outcome \<times> KodiConnection \<times> thrown option list" where
  "ensure_open c [] = (if kodi_connected c then (Returned (), c, []) else (Pending, c, []))"
| "ensure_open c (x # xs) =
     (if kodi_connected c then (Returned (), c, x # xs)
      else (case x of
              None \<Rightarrow> ensure_open ((open_client c)\<lparr> failedAttemptsAtConnecting := 0 \<rparr>) xs
            | Some err \<Rightarrow>
                (case useFallback c err of
                   (True, c1) \<Rightarrow> ensure_open (close c1) xs
                 | (False, c1) \<Rightarrow>
                     (Raised (Rethrown err), c1\<lparr> failedAttemptsAtConnecting := 0 \<rparr>, xs))))"

definition not_ready :: "thrown \<Rightarrow> bool" where
  "not_ready err =
     (err_truthy err \<and>
      (case err_message err of
         None \<Rightarrow> False
       | Some m \<Rightarrow> m \<noteq> [] \<and> str_includes m ''socket not ready''))"

definition wrap_error :: "KodiConnection \<Rightarrow> string \<Rightarrow> thrown \<Rightarrow> call_error" where
  "wrap_error c command err =
     (case (if err_truthy err then err_message err else None) of
        Some (m # ms) \<Rightarrow>
          Wrapped (address c) command
            (MessageData (m # ms) (case err_data err of None \<Rightarrow> [] | Some d \<Rightarrow> d))
      | _ \<Rightarrow>
          (case (if err_truthy err then err_errcode err else None) of
             Some (k # ks) \<Rightarrow>
               Wrapped (address c) command
                 (ErrCode (k # ks) (err_errmessage err)
                    (case err_method err of None \<Rightarrow> [] | Some m \<Rightarrow> m))
           | _ \<Rightarrow> Wrapped (address c) command (Other err)))"

function call ::
  "KodiConnection \<Rightarrow> string \<Rightarrow> jsval \<Rightarrow> script \<Rightarrow> jsval outcome \<times> KodiConnection \<times> script" where
  "call c command args sc =
     (case ensure_open c (opens sc) of
        (Raised e, c1, os) \<Rightarrow> (Raised e, c1, sc\<lparr> opens := os \<rparr>)
      | (Pending, c1, os) \<Rightarrow> (Pending, c1, sc\<lparr> opens := os \<rparr>)
      | (Returned u, c1, os) \<Rightarrow>
          (case requests sc of
             [] \<Rightarrow> (Pending, c1, sc\<lparr> opens := os \<rparr>)
           | Inr result # rs \<Rightarrow>
               (Returned result, c1\<lparr> failedAttemptsAtConnecting := 0 \<rparr>,
                \<lparr> opens = os, requests = rs \<rparr>)
           | Inl err # rs \<Rightarrow>
               (case useFallback c1 err of
                  (True, c2) \<Rightarrow> call (close c2) command args \<lparr> opens = os, requests = rs \<rparr>
                | (False, c2) \<Rightarrow>
                    if not_ready err then
                      call (close c2) command args \<lparr> opens = os, requests = rs \<rparr>
                    else
                      (Raised (wrap_error c2 command err),
                       c2\<lparr> failedAttemptsAtConnecting := 0 \<rparr>,
                       \<lparr> opens = os, requests = rs \<rparr>))))"
  by pat_completeness auto
termination
  by (relation "measure (\<lambda>(c, command, args, sc). length (requests sc))") auto

section \<open>Errors of the receiver layer\<close>

text \<open>
  \<open>Error m\<close> is \<open>new Error( m )\<close>; \<open>InvalidArgumentError\<close> is the class of
  \<open>restify-errors\<close> that \<open>callCommand\<close> throws; \<open>TypeError\<close> and \<open>SyntaxError\<close>
  are raised by the language itself (calling what is not a function, reading a property
  of \<open>undefined\<close>, parsing malformed JSON); \<open>Failure m\<close> is a rejection coming out of a
  collaborator (transport, HTTP client, database, event listener).
\<close>

datatype error =
    SessionNotFoundError
  | Error string
  | InvalidArgumentError
  | TypeError
  | SyntaxError
  | Failure string

section \<open>The session registry\<close>

datatype MediaStreamType = Video | Subtitles | OtherStream

record MediaStream =
  stream_id :: string
  stream_type :: MediaStreamType

record session_info =
  streams :: "MediaStream list"
  media_record :: jsval
  play_options :: "(string \<times> jsval) list"

type_synonym session_id = string

type_synonym registry = "session_id \<rightharpoonup> session_info"

text \<open>
  Modelled from the spec: the class \<open>MediaSessionsManager\<close> behind \<open>this.sessions\<close>
  is not among the sources. \<open>get\<close> resolves a known id to its streams, record and
  options and fails with \<open>SessionNotFoundError\<close> otherwise (\<open>null\<close> is no id).
\<close>

definition sessions_get :: "registry \<Rightarrow> session_id option \<Rightarrow> error + session_info" where
  "sessions_get reg sid =
     (case sid of
        None \<Rightarrow> Inl SessionNotFoundError
      | Some i \<Rightarrow> (case reg i of None \<Rightarrow> Inl SessionNotFoundError | Some info \<Rightarrow> Inr info))"

text \<open>
  Modelled from the spec: \<open>release\<close> of the same missing class removes the binding of
  the id and is a no-op, not an error, on an id that is unknown, already released or
  \<open>null\<close>.
\<close>

definition sessions_release :: "registry \<Rightarrow> session_id option \<Rightarrow> registry" where
  "sessions_release reg sid = (case sid of None \<Rightarrow> reg | Some i \<Rightarrow> reg(i := None))"

section \<open>The status model\<close>

datatype ReceiverStatusState = Stopped | Playing | Paused | Buffering

record ReceiverTimeStatus =
  duration :: real
  time_current :: real
  speed :: real

record ReceiverMediaStatus =
  time :: ReceiverTimeStatus
  transcoding :: jsval
  record_of :: jsval
  session :: jsval
  options :: jsval

record ReceiverVolumeStatus =
  level :: real
  muted :: bool

record ReceiverSubtitlesStyleStatus =
  size_of :: real

record ReceiverStatus =
  timestamp :: nat
  state :: ReceiverStatusState
  media :: ReceiverMediaStatus
  volume :: ReceiverVolumeStatus
  subtitlesStyle :: "ReceiverSubtitlesStyleStatus option"

text \<open>
  The snapshot \<open>status\<close> returns when nothing is playing: no transcoding, record or
  session (\<open>null\<close>), empty options, no subtitles style.
\<close>

definition stopped_status :: "nat \<Rightarrow> ReceiverStatus" where
  "stopped_status t =
     \<lparr> timestamp = t,
       state = Stopped,
       media = \<lparr> time = \<lparr> duration = 0, time_current = 0, speed = 0 \<rparr>,
                 transcoding = JNull, record_of = JNull, session = JNull, options = JObj [] \<rparr>,
       volume = \<lparr> level = 1, muted = False \<rparr>,
       subtitlesStyle = None \<rparr>"

section \<open>The MPV receiver\<close>

text \<open>
  What \<open>connection.status()\<close> resolves to when it is an object: the properties the
  receiver reads. \<open>path\<close> is \<open>None\<close> when the property is missing or \<open>null\<close>.
\<close>

record mpv_status =
  path :: "string option"
  mpv_pause :: bool
  mpv_duration :: real
  position :: real
  mpv_volume :: real
  mpv_mute :: bool
  subScale :: real

text \<open>The calls the receiver makes on its \<open>MpvConnection\<close>, with their arguments.\<close>

datatype transport_cmd =
    TOpen
  | TClose
  | TQuit
  | TPlay string "string option"
  | TPause
  | TResume
  | TStop
  | TStatus
  | TSeek jsval
  | TGoToPosition jsval
  | TMute
  | TUnmute
  | TVolume jsval
  | TSubtitleScale jsval
  | TShowProgress

text \<open>
  What a receiver does to the outside, in order: a call on the transport, a release in
  the registry, a notification to the listeners.
\<close>

datatype action =
    Transport transport_cmd
  | Release "session_id option"
  | Emit string "session_id option"

text \<open>
  The classes \<open>MpvConnection\<close>, \<open>HttpSender\<close> and \<open>BaseReceiver\<close> and the database
  are not among the sources, so what they answer during one operation is a parameter:
  whether the connection reports \<open>connected\<close>, whether each transport call is rejected
  (\<open>None\<close> when it resolves), what \<open>connection.status()\<close> resolves to (\<open>None\<close> for a
  falsy value), whether \<open>emit\<close> throws for an event, what the history table answers,
  the URL the sender gives for a session and a stream id, and the clock.
\<close>

record env =
  now :: nat
  reports_connected :: bool
  reply :: "transport_cmd \<Rightarrow> error option"
  status_reply :: "mpv_status option"
  emit_reply :: "string \<Rightarrow> error option"
  history_reply :: "session_id option \<Rightarrow> error + jsval"
  stream_url :: "jsval \<Rightarrow> jsval \<Rightarrow> string"

text \<open>
  The receiver: its descriptive fields, the registry and the current pointer of
  \<open>this.sessions\<close>, and the trace of what it has done so far.
\<close>

record MpvReceiver =
  rcv_name :: string
  rcv_address :: string
  rcv_port :: nat
  sessions :: registry
  current :: "session_id option"
  trace :: "action list"

definition record_action :: "action \<Rightarrow> MpvReceiver \<Rightarrow> MpvReceiver" where
  "record_action a r = r\<lparr> trace := trace r @ [a] \<rparr>"

definition release :: "session_id option \<Rightarrow> MpvReceiver \<Rightarrow> MpvReceiver" where
  "release sid r =
     record_action (Release sid) (r\<lparr> sessions := sessions_release (sessions r) sid \<rparr>)"

text \<open>One awaited call on the connection: it is traced, then resolves or is rejected.\<close>

definition transport :: "env \<Rightarrow> transport_cmd \<Rightarrow> MpvReceiver \<Rightarrow> error option \<times> MpvReceiver" where
  "transport e cmd r = (reply e cmd, record_action (Transport cmd) r)"

definition emit :: "env \<Rightarrow> string \<Rightarrow> session_id option \<Rightarrow> MpvReceiver \<Rightarrow> error option \<times> MpvReceiver" where
  "emit e event sid r = (emit_reply e event, record_action (Emit event sid) r)"

text \<open>\<open>Math.round\<close> on a finite number.\<close>

definition Math_round :: "real \<Rightarrow> real" where
  "Math_round x = of_int \<lfloor>x + 1 / 2\<rfloor>"

definition normalized_status ::
  "nat \<Rightarrow> mpv_status \<Rightarrow> jsval \<Rightarrow> jsval \<Rightarrow> ReceiverStatus" where
  "normalized_status t st rec hist =
     \<lparr> timestamp = t,
       state = (if mpv_pause st then Paused else Playing),
       media = \<lparr> time = \<lparr> duration = mpv_duration st, time_current = position st,
                          speed = (if mpv_pause st then 0 else 1) \<rparr>,
                 transcoding = JNull, record_of = rec, session = hist, options = JNull \<rparr>,
       volume = \<lparr> level = Math_round (mpv_volume st), muted = mpv_mute st \<rparr>,
       subtitlesStyle = Some \<lparr> size_of = subScale st \<rparr> \<rparr>"

text \<open>\<open>!status || !status.path\<close>: no reply object, or one whose path is missing or empty.\<close>

definition no_media :: "mpv_status option \<Rightarrow> bool" where
  "no_media s = (case s of None \<Rightarrow> True | Some st \<Rightarrow> path st = None \<or> path st = Some [])"

definition status :: "env \<Rightarrow> MpvReceiver \<Rightarrow> (error + ReceiverStatus) \<times> MpvReceiver" where
  "status e r =
     (case transport e TStatus r of
        (Some err, r1) \<Rightarrow> (Inl err, r1)
      | (None, r1) \<Rightarrow>
          if no_media (status_reply e) then (Inr (stopped_status (now e)), r1)
          else
            (case status_reply e of
               None \<Rightarrow> (Inr (stopped_status (now e)), r1)
             | Some st \<Rightarrow>
                 (case sessions_get (sessions r1) (current r1) of
                    Inl err \<Rightarrow> (Inl err, r1)
                  | Inr info \<Rightarrow>
                      (case history_reply e (current r1) of
                         Inl err \<Rightarrow> (Inl err, r1)
                       | Inr hist \<Rightarrow>
                           (Inr (normalized_status (now e) st (media_record info) hist), r1)))))"

definition getStreamUrl :: "env \<Rightarrow> session_id \<Rightarrow> MediaStream \<Rightarrow> string" where
  "getStreamUrl e sid stream = stream_url e (JStr sid) (JStr (stream_id stream))"

text \<open>
  The body of the \<open>try\<close> block of \<open>play\<close>: \<open>None\<close> when it runs to its end, the
  thrown error otherwise, with the receiver as it is at that moment. The merged play
  options are computed by the source and never read, so they are left out.
\<close>

definition play_setup ::
  "env \<Rightarrow> session_id \<Rightarrow> MediaStream option \<Rightarrow> MediaStream option \<Rightarrow> MpvReceiver
     \<Rightarrow> error option \<times> MpvReceiver" where
  "play_setup e sid video subtitles r =
     (case video of
        None \<Rightarrow>
          (Some (Error ''Trying to play media with no video stream is not currently supported.''), r)
      | Some v \<Rightarrow>
          (let r1 = (if current r \<noteq> None \<and> current r \<noteq> Some sid
                     then release (current r) r else r);
               videoUrl = getStreamUrl e sid v;
               subtitlesUrl = map_option (getStreamUrl e sid) subtitles
           in case transport e (TPlay videoUrl subtitlesUrl) r1 of
                (Some err, r2) \<Rightarrow> (Some err, r2)
              | (None, r2) \<Rightarrow> emit e ''play'' (Some sid) (r2\<lparr> current := Some sid \<rparr>)))"

definition play :: "env \<Rightarrow> session_id \<Rightarrow> MpvReceiver \<Rightarrow> (error + ReceiverStatus) \<times> MpvReceiver" where
  "play e sid r =
     (case sessions_get (sessions r) (Some sid) of
        Inl err \<Rightarrow> (Inl err, r)
      | Inr info \<Rightarrow>
          (case play_setup e sid
                  (find (\<lambda>s. stream_type s = Video) (streams info))
                  (find (\<lambda>s. stream_type s = Subtitles) (streams info)) r of
             (Some err, r1) \<Rightarrow>
               (let r2 = release (Some sid) r1
                in (Inl err, if current r2 = Some sid then r2\<lparr> current := None \<rparr> else r2))
           | (None, r1) \<Rightarrow> status e r1))"

definition stop :: "env \<Rightarrow> MpvReceiver \<Rightarrow> (error + ReceiverStatus) \<times> MpvReceiver" where
  "stop e r =
     (case transport e TStop r of
        (Some err, r1) \<Rightarrow> (Inl err, r1)
      | (None, r1) \<Rightarrow>
          (let r2 = release (current r1) r1;
               sid = current r2
           in case emit e ''stop'' sid (r2\<lparr> current := None \<rparr>) of
                (Some err, r3) \<Rightarrow> (Inl err, r3)
              | (None, r3) \<Rightarrow> status e r3))"

definition connect :: "env \<Rightarrow> MpvReceiver \<Rightarrow> (error + bool) \<times> MpvReceiver" where
  "connect e r =
     (if reports_connected e then
        (case transport e TOpen r of
           (Some err, r1) \<Rightarrow> (Inl err, r1)
         | (None, r1) \<Rightarrow> (Inr True, r1))
      else (Inr True, r))"

text \<open>
  \<open>disconnect\<close>: the connection field is set by the constructor and never cleared, so
  \<open>close\<close> is always called. The call is not awaited: whether it is rejected plays no
  part, and \<open>disconnect\<close> always resolves to \<open>true\<close>. \<open>reconnect\<close> returns from its
  \<open>finally\<close> block, after \<open>disconnect\<close>.
\<close>

definition disconnect :: "env \<Rightarrow> MpvReceiver \<Rightarrow> (error + bool) \<times> MpvReceiver" where
  "disconnect e r = (Inr True, snd (transport e TClose r))"

definition reconnect :: "env \<Rightarrow> MpvReceiver \<Rightarrow> (error + bool) \<times> MpvReceiver" where
  "reconnect e r = connect e (snd (disconnect e r))"

text \<open>Sequencing: an awaited step that was rejected ends the operation with that error.\<close>

definition and_then ::
  "error option \<times> MpvReceiver \<Rightarrow> (MpvReceiver \<Rightarrow> (error + 'a) \<times> MpvReceiver)
     \<Rightarrow> (error + 'a) \<times> MpvReceiver" where
  "and_then step k = (case step of (Some err, r) \<Rightarrow> (Inl err, r) | (None, r) \<Rightarrow> k r)"

text \<open>
  \<open>turnoff\<close> logs and swallows a failure of \<open>quit\<close>, releases the current session when
  the pointer is truthy (it does not clear the pointer) and returns the status.
\<close>

definition turnoff :: "env \<Rightarrow> MpvReceiver \<Rightarrow> (error + ReceiverStatus) \<times> MpvReceiver" where
  "turnoff e r =
     (let r1 = snd (transport e TQuit r);
          r2 = (if current r1 \<noteq> None \<and> current r1 \<noteq> Some [] then release (current r1) r1 else r1)
      in status e r2)"

definition pause :: "env \<Rightarrow> MpvReceiver \<Rightarrow> (error + ReceiverStatus) \<times> MpvReceiver" where
  "pause e r =
     and_then (transport e TPause r) (\<lambda>r1.
     and_then (emit e ''pause'' (current r1) r1) (\<lambda>r2.
     and_then (transport e TShowProgress r2) (status e)))"

definition resume :: "env \<Rightarrow> MpvReceiver \<Rightarrow> (error + ReceiverStatus) \<times> MpvReceiver" where
  "resume e r =
     and_then (transport e TResume r) (\<lambda>r1.
     and_then (emit e ''resume'' (current r1) r1) (\<lambda>r2.
     and_then (transport e TShowProgress r2) (status e)))"

definition seek :: "env \<Rightarrow> jsval \<Rightarrow> MpvReceiver \<Rightarrow> (error + ReceiverStatus) \<times> MpvReceiver" where
  "seek e t r =
     and_then (transport e (TSeek t) r) (\<lambda>r1.
     and_then (transport e TShowProgress r1) (status e))"

definition seekTo :: "env \<Rightarrow> jsval \<Rightarrow> MpvReceiver \<Rightarrow> (error + ReceiverStatus) \<times> MpvReceiver" where
  "seekTo e t r =
     and_then (transport e (TGoToPosition t) r) (\<lambda>r1.
     and_then (transport e TShowProgress r1) (status e))"

definition mute :: "env \<Rightarrow> MpvReceiver \<Rightarrow> (error + ReceiverStatus) \<times> MpvReceiver" where
  "mute e r = and_then (transport e TMute r) (status e)"

definition unmute :: "env \<Rightarrow> MpvReceiver \<Rightarrow> (error + ReceiverStatus) \<times> MpvReceiver" where
  "unmute e r = and_then (transport e TUnmute r) (status e)"

definition setVolume :: "env \<Rightarrow> jsval \<Rightarrow> MpvReceiver \<Rightarrow> (error + ReceiverStatus) \<times> MpvReceiver" where
  "setVolume e lvl r = and_then (transport e (TVolume lvl) r) (status e)"

definition changeSubtitlesSize ::
  "env \<Rightarrow> jsval \<Rightarrow> MpvReceiver \<Rightarrow> (error + ReceiverStatus) \<times> MpvReceiver" where
  "changeSubtitlesSize e sz r = and_then (transport e (TSubtitleScale sz) r) (status e)"

text \<open>
  \<open>changeSubtitles\<close>, \<open>changeSubtitlesStyle\<close> and \<open>cycleSubtitlesStyle\<close> have their
  transport calls commented out: each only returns the status.
\<close>

definition changeSubtitles :: "env \<Rightarrow> MpvReceiver \<Rightarrow> (error + ReceiverStatus) \<times> MpvReceiver" where
  "changeSubtitles e r = status e r"

definition toJSON :: "MpvReceiver \<Rightarrow> jsval" where
  "toJSON r =
     JObj [(''type'', JStr ''mpv''), (''name'', JStr (rcv_name r)),
           (''address'', JStr (rcv_address r)), (''port'', JNum (real (rcv_port r)))]"

subsection \<open>Dispatch by name\<close>

text \<open>
  \<open>callCommand\<close> tests \<open>commandName in this\<close> and then calls \<open>this[ commandName ]\<close>
  with the spread arguments. The members the class \<open>MpvReceiver\<close> declares are listed
  from the source: its methods, its constructor, and its data properties (fields and the
  getter \<open>connected\<close>), which are not callable.
\<close>

datatype receiver_method =
    M_connect | M_disconnect | M_reconnect | M_turnoff | M_getStreamUrl
  | M_play | M_pause | M_resume | M_stop | M_status | M_seek | M_seekTo
  | M_mute | M_unmute | M_setVolume
  | M_changeSubtitles | M_changeSubtitlesSize | M_changeSubtitlesStyle
  | M_cycleSubtitlesStyle | M_toJSON

datatype member = Method receiver_method | CallCommand | Constructor | Data | Foreign

definition declared_members :: "(string \<times> member) list" where
  "declared_members =
     [(''type'', Data), (''address'', Data), (''port'', Data), (''connection'', Data),
      (''instance'', Data), (''sender'', Data), (''logger'', Data), (''connected'', Data),
      (''constructor'', Constructor),
      (''connect'', Method M_connect), (''disconnect'', Method M_disconnect),
      (''reconnect'', Method M_reconnect), (''turnoff'', Method M_turnoff),
      (''getStreamUrl'', Method M_getStreamUrl), (''play'', Method M_play),
      (''pause'', Method M_pause), (''resume'', Method M_resume), (''stop'', Method M_stop),
      (''status'', Method M_status), (''seek'', Method M_seek), (''seekTo'', Method M_seekTo),
      (''mute'', Method M_mute), (''unmute'', Method M_unmute),
      (''setVolume'', Method M_setVolume), (''callCommand'', CallCommand),
      (''changeSubtitles'', Method M_changeSubtitles),
      (''changeSubtitlesSize'', Method M_changeSubtitlesSize),
      (''changeSubtitlesStyle'', Method M_changeSubtitlesStyle),
      (''cycleSubtitlesStyle'', Method M_cycleSubtitlesStyle),
      (''toJSON'', Method M_toJSON)]"

text \<open>
  The base class \<open>BaseReceiver\<close> and what it inherits are not among the sources, and
  neither is the language's conversion of a value to a property key. They are parameters:
  which further names the object has (\<open>Some True\<close> when callable), what calling such an
  inherited method does, and the key a value that is not a string converts to.
\<close>

record runtime =
  inherited :: "string \<Rightarrow> bool option"
  inherited_call :: "string \<Rightarrow> jsval list \<Rightarrow> MpvReceiver \<Rightarrow> (error + jsval) \<times> MpvReceiver"
  to_property_key :: "jsval \<Rightarrow> string"

definition lookup_member :: "runtime \<Rightarrow> string \<Rightarrow> member option" where
  "lookup_member rt name =
     (case map_of declared_members name of
        Some m \<Rightarrow> Some m
      | None \<Rightarrow> (case inherited rt name of
                   None \<Rightarrow> None
                 | Some callable \<Rightarrow> Some (if callable then Foreign else Data)))"

definition property_key :: "runtime \<Rightarrow> jsval \<Rightarrow> string" where
  "property_key rt v = (case v of JStr s \<Rightarrow> s | _ \<Rightarrow> to_property_key rt v)"

text \<open>Spreading \<open>...args\<close>: arrays and strings are iterable, the other values are not.\<close>

definition spread :: "jsval \<Rightarrow> jsval list option" where
  "spread v =
     (case v of
        JArr xs \<Rightarrow> Some xs
      | JStr s \<Rightarrow> Some (map (\<lambda>c. JStr [c]) s)
      | _ \<Rightarrow> None)"

definition arg :: "jsval list \<Rightarrow> nat \<Rightarrow> jsval" where
  "arg xs i = (if i < length xs then xs ! i else JUndefined)"

datatype ret = RStatus ReceiverStatus | RBool bool | RValue jsval

definition returning ::
  "('a \<Rightarrow> ret) \<Rightarrow> (error + 'a) \<times> MpvReceiver \<Rightarrow> (error + ret) \<times> MpvReceiver" where
  "returning f x = (case x of (Inl err, r) \<Rightarrow> (Inl err, r) | (Inr v, r) \<Rightarrow> (Inr (f v), r))"

text \<open>
  \<open>play\<close> with whatever value arrives as the id: the registry is keyed by strings, so
  another value resolves to no session and \<open>sessions.get\<close> fails before the \<open>try\<close>.
\<close>

definition play_any :: "env \<Rightarrow> jsval \<Rightarrow> MpvReceiver \<Rightarrow> (error + ReceiverStatus) \<times> MpvReceiver" where
  "play_any e v r = (case v of JStr sid \<Rightarrow> play e sid r | _ \<Rightarrow> (Inl SessionNotFoundError, r))"

text \<open>\<open>getStreamUrl\<close> with untyped arguments: reading \<open>stream.id\<close> fails on \<open>undefined\<close> and \<open>null\<close>.\<close>

definition getStreamUrl_any :: "env \<Rightarrow> jsval \<Rightarrow> jsval \<Rightarrow> error + jsval" where
  "getStreamUrl_any e sess stream =
     (case stream of
        JUndefined \<Rightarrow> Inl TypeError
      | JNull \<Rightarrow> Inl TypeError
      | JObj kvs \<Rightarrow>
          Inr (JStr (stream_url e sess (case map_of kvs ''id'' of Some v \<Rightarrow> v | None \<Rightarrow> JUndefined)))
      | _ \<Rightarrow> Inr (JStr (stream_url e sess JUndefined)))"

fun invoke :: "env \<Rightarrow> receiver_method \<Rightarrow> jsval list \<Rightarrow> MpvReceiver \<Rightarrow> (error + ret) \<times> MpvReceiver" where
  "invoke e M_connect as r = returning RBool (connect e r)"
| "invoke e M_disconnect as r = returning RBool (disconnect e r)"
| "invoke e M_reconnect as r = returning RBool (reconnect e r)"
| "invoke e M_turnoff as r = returning RStatus (turnoff e r)"
| "invoke e M_getStreamUrl as r = returning RValue (getStreamUrl_any e (arg as 0) (arg as 1), r)"
| "invoke e M_play as r = returning RStatus (play_any e (arg as 0) r)"
| "invoke e M_pause as r = returning RStatus (pause e r)"
| "invoke e M_resume as r = returning RStatus (resume e r)"
| "invoke e M_stop as r = returning RStatus (stop e r)"
| "invoke e M_status as r = returning RStatus (status e r)"
| "invoke e M_seek as r = returning RStatus (seek e (arg as 0) r)"
| "invoke e M_seekTo as r = returning RStatus (seekTo e (arg as 0) r)"
| "invoke e M_mute as r = returning RStatus (mute e r)"
| "invoke e M_unmute as r = returning RStatus (unmute e r)"
| "invoke e M_setVolume as r = returning RStatus (setVolume e (arg as 0) r)"
| "invoke e M_changeSubtitles as r = returning RStatus (changeSubtitles e r)"
| "invoke e M_changeSubtitlesSize as r = returning RStatus (changeSubtitlesSize e (arg as 0) r)"
| "invoke e M_changeSubtitlesStyle as r = returning RStatus (changeSubtitles e r)"
| "invoke e M_cycleSubtitlesStyle as r = returning RStatus (changeSubtitles e r)"
| "invoke e M_toJSON as r = (Inr (RValue (toJSON r)), r)"

text \<open>
  \<open>callCommand\<close> is itself a member, so a call can name it and be dispatched again with
  the first argument as the name and the second as the arguments; the function is
  therefore defined with \<open>None\<close> for a dispatch that would not end. Calling the class
  constructor without \<open>new\<close>, and calling a data property, is a \<open>TypeError\<close>.
\<close>

partial_function (option) callCommand ::
  "runtime \<Rightarrow> env \<Rightarrow> string \<Rightarrow> jsval \<Rightarrow> MpvReceiver
     \<Rightarrow> ((error + ret) \<times> MpvReceiver) option" where
  "callCommand rt e commandName args r =
     (case lookup_member rt commandName of
        None \<Rightarrow> Some (Inl InvalidArgumentError, r)
      | Some m \<Rightarrow>
          (case spread args of
             None \<Rightarrow> Some (Inl TypeError, r)
           | Some as \<Rightarrow>
               (case m of
                  Method meth \<Rightarrow> Some (invoke e meth as r)
                | CallCommand \<Rightarrow> callCommand rt e (property_key rt (arg as 0)) (arg as 1) r
                | Constructor \<Rightarrow> Some (Inl TypeError, r)
                | Data \<Rightarrow> Some (Inl TypeError, r)
                | Foreign \<Rightarrow> Some (returning RValue (inherited_call rt commandName as r)))))"

section \<open>The JSON-RPC query helper (KodiApi)\<close>

text \<open>
  A parsed reply body, at the shape the device's protocol gives it: an optional error
  object with its message, an optional result object with optional limits (numbers) and
  its other members.
\<close>

record rpc_error =
  error_message :: string

record rpc_limits =
  limits_start :: real
  limits_total :: real

record rpc_result =
  limits :: "rpc_limits option"
  members :: "(string \<times> jsval) list"

record rpc_body =
  body_error :: "rpc_error option"
  body_result :: "rpc_result option"

record http_response =
  statusCode :: nat
  body :: string

record query_options =
  returnResponse :: bool
  forceArray :: bool

datatype query_result = Response http_response | Value jsval

text \<open>\<open>body.result[ key ]\<close>: the limits are a member of the result like the others.\<close>

definition result_member :: "rpc_result \<Rightarrow> string \<Rightarrow> jsval" where
  "result_member res key =
     (if key = ''limits'' then
        (case limits res of
           None \<Rightarrow> JUndefined
         | Some l \<Rightarrow> JObj [(''start'', JNum (limits_start l)), (''total'', JNum (limits_total l))])
      else (case map_of (members res) key of None \<Rightarrow> JUndefined | Some v \<Rightarrow> v))"

definition is_array :: "jsval \<Rightarrow> bool" where
  "is_array v = (case v of JArr xs \<Rightarrow> True | _ \<Rightarrow> False)"

text \<open>
  \<open>query\<close>, given what the HTTP request resolves to (or is rejected with) and what
  \<open>JSON.parse\<close> makes of a body. The request sent only determines that answer. The
  second test of \<open>!kind\<close> in the source can never be reached with a true condition.
\<close>

definition query ::
  "(string \<Rightarrow> error + rpc_body) \<Rightarrow> error + http_response \<Rightarrow> string option \<Rightarrow> query_options
     \<Rightarrow> error + query_result" where
  "query JSON_parse got kind opts =
     (case got of
        Inl err \<Rightarrow> Inl err
      | Inr response \<Rightarrow>
          if kind = None \<or> kind = Some [] \<or> returnResponse opts then Inr (Response response)
          else
            (case JSON_parse (body response) of
               Inl err \<Rightarrow> Inl err
             | Inr b \<Rightarrow>
                 (case body_error b of
                    Some er \<Rightarrow> Inl (Error (error_message er))
                  | None \<Rightarrow>
                      (case body_result b of
                         None \<Rightarrow> Inl TypeError
                       | Some res \<Rightarrow>
                           if (case limits res of
                                 None \<Rightarrow> False
                               | Some l \<Rightarrow> limits_start l \<ge> limits_total l)
                           then Inr (Value (JArr []))
                           else
                             (let k = (case kind of None \<Rightarrow> [] | Some k \<Rightarrow> k);
                                  first = result_member res (k @ ''s'');
                                  result = (if truthy first then first
                                            else result_member res (k @ ''details''))
                              in if \<not> is_array result \<and> forceArray opts
                                 then Inr (Value (JArr [result]))
                                 else Inr (Value result))))))"

section \<open>Concrete devices, sessions and replies\<close>

text \<open>Values on which the operations are run further down.\<close>

definition refused :: thrown where
  "refused =
     \<lparr> err_truthy = True, err_code = Some ''ECONNREFUSED'',
       err_message = Some ''connect ECONNREFUSED 10.0.0.1:8080'',
       err_data = None, err_errcode = None, err_errmessage = None, err_method = None \<rparr>"



definition kodi_with_fallback :: KodiConnection where
  "kodi_with_fallback = KodiConnection_new ''10.0.0.1'' 8080 None None (Some ''10.0.0.2'')"

definition video_stream :: MediaStream where
  "video_stream = \<lparr> stream_id = ''v1'', stream_type = Video \<rparr>"

definition subtitles_stream :: MediaStream where
  "subtitles_stream = \<lparr> stream_id = ''s1'', stream_type = Subtitles \<rparr>"

definition movie_session :: session_info where
  "movie_session =
     \<lparr> streams = [video_stream], media_record = JStr ''movie'', play_options = [] \<rparr>"

definition subtitles_only_session :: session_info where
  "subtitles_only_session =
     \<lparr> streams = [subtitles_stream], media_record = JStr ''subs'', play_options = [] \<rparr>"

text \<open>A device that accepts every command and reports nothing playing.\<close>

definition quiet_env :: env where
  "quiet_env =
     \<lparr> now = 0, reports_connected = False, reply = (\<lambda>cmd. None), status_reply = None,
       emit_reply = (\<lambda>event. None), history_reply = (\<lambda>sid. Inr JNull),
       stream_url = (\<lambda>s i. ''http://localhost:3030/stream'') \<rparr>"

text \<open>The same device, unreachable: every transport call is rejected.\<close>

definition unreachable_env :: env where
  "unreachable_env = quiet_env\<lparr> reply := (\<lambda>cmd. Some (Failure ''ECONNREFUSED'')) \<rparr>"

text \<open>The same device with a listener that throws on every notification.\<close>

definition failing_listener_env :: env where
  "failing_listener_env = quiet_env\<lparr> emit_reply := (\<lambda>event. Some (Failure ''listener failed'')) \<rparr>"

definition idle_receiver :: MpvReceiver where
  "idle_receiver =
     \<lparr> rcv_name = ''living-room'', rcv_address = ''localhost'', rcv_port = 2019,
       sessions = [''A'' \<mapsto> movie_session, ''B'' \<mapsto> movie_session,
                   ''S'' \<mapsto> subtitles_only_session],
       current = None, trace = [] \<rparr>"

definition empty_page :: rpc_body where
  "empty_page =
     \<lparr> body_error = None,
       body_result = Some \<lparr> limits = Some \<lparr> limits_start = 0, limits_total = 0 \<rparr>,
                            members = [] \<rparr> \<rparr>"

definition failed_reply :: rpc_body where
  "failed_reply =
     \<lparr> body_error = Some \<lparr> error_message = ''Invalid params.'' \<rparr>, body_result = None \<rparr>"

definition parse_replies :: "string \<Rightarrow> error + rpc_body" where
  "parse_replies s =
     (if s = ''empty page'' then Inr empty_page
      else if s = ''failed'' then Inr failed_reply
      else Inl SyntaxError)"

definition plain_options :: query_options where
  "plain_options = \<lparr> returnResponse = False, forceArray = False \<rparr>"



section \<open>Properties of the transport client\<close>

lemmas kodi_defs = KodiConnection_new_def kodi_connected_def open_client_def useFallback_def
  connectivity_shaped_def close_def not_ready_def wrap_error_def

lemma ensure_open_connected: "kodi_connected c \<Longrightarrow> ensure_open c os = (Returned (), c, os)"
  by (cases os) simp_all

lemma useFallback_first_refusal:
  assumes "connectivity_shaped err" and "fallback c \<noteq> None"
      and "failedAttemptsAtConnecting c = 0"
  shows "useFallback c err =
           (True, c\<lparr> failedAttemptsAtConnecting := 1, usingFallback := \<not> usingFallback c \<rparr>)"
  using assms by (simp add: useFallback_def Let_def)

lemma call_after_open:
  assumes "\<not> kodi_connected c"
  shows "call c command args \<lparr> opens = None # os, requests = rs \<rparr>
       = call ((open_client c)\<lparr> failedAttemptsAtConnecting := 0 \<rparr>) command args
           \<lparr> opens = os, requests = rs \<rparr>"
proof -
  have "kodi_connected ((open_client c)\<lparr> failedAttemptsAtConnecting := 0 \<rparr>)"
    by (simp add: kodi_connected_def open_client_def)
  then have "ensure_open ((open_client c)\<lparr> failedAttemptsAtConnecting := 0 \<rparr>) os
      = (Returned (), (open_client c)\<lparr> failedAttemptsAtConnecting := 0 \<rparr>, os)"
    by (rule ensure_open_connected)
  with assms show ?thesis by (simp split: list.splits sum.splits)
qed

subsection \<open>Fallback toggling\<close>

text \<open>
  When it is \<open>open\<close> that is refused, the failed-attempt counter bounds the toggling:
  the second refusal in a row is thrown to the caller, with the counter back at 0 and the
  client left on the address it toggled to.
\<close>

lemma open_refusals_are_bounded:
  assumes "connectivity_shaped err" and "fallback c \<noteq> None" and "\<not> kodi_connected c"
      and "failedAttemptsAtConnecting c = 0"
  shows "call c command args \<lparr> opens = Some err # Some err # os, requests = rs \<rparr>
       = (Raised (Rethrown err),
          c\<lparr> failedAttemptsAtConnecting := 0, usingFallback := \<not> usingFallback c \<rparr>,
          \<lparr> opens = os, requests = rs \<rparr>)"
proof -
  obtain fb where fb: "fallback c = Some fb" using assms(2) by auto
  show ?thesis
    using assms(1,3,4) fb
    by (simp add: useFallback_def Let_def close_def kodi_connected_def)
qed

text \<open>
  A request refused on the primary and answered on the fallback: the call returns the
  answer, using the fallback, with the counter at 0.
\<close>

lemma fallback_success_resets_counter:
  assumes "connectivity_shaped err" and "fallback c \<noteq> None" and "\<not> kodi_connected c"
      and "\<not> usingFallback c"
  shows "fst (call c command args \<lparr> opens = [None, None], requests = [Inl err, Inr v] \<rparr>)
           = Returned v \<and>
         usingFallback (fst (snd (call c command args
            \<lparr> opens = [None, None], requests = [Inl err, Inr v] \<rparr>))) \<and>
         failedAttemptsAtConnecting (fst (snd (call c command args
            \<lparr> opens = [None, None], requests = [Inl err, Inr v] \<rparr>))) = 0"
proof -
  obtain fb where fb: "fallback c = Some fb" using assms(2) by auto
  show ?thesis
    using assms(1,3,4) fb
    by (simp add: useFallback_def Let_def close_def kodi_connected_def open_client_def)
qed

text \<open>
  When it is the request that is refused, the connection is closed and the call starts
  again; the new \<open>open\<close> succeeds and puts the counter back to 0 before the next request
  is sent, so \<open>useFallback\<close> never sees it above 1. However many refusals follow one
  another, none is raised: the call toggles the address each time and returns the first
  answer it gets.
\<close>

lemma request_refusals_never_raise:
  assumes "connectivity_shaped err" and "fallback c \<noteq> None" and "\<not> kodi_connected c"
  shows "fst (call c command args
            \<lparr> opens = replicate (Suc n) None, requests = replicate n (Inl err) @ [Inr v] \<rparr>)
         = Returned v"
  using assms(2,3)
proof (induction n arbitrary: c)
  case 0
  then show ?case
    by (simp add: kodi_connected_def open_client_def)
next
  case (Suc n)
  let ?c1 = "(open_client c)\<lparr> failedAttemptsAtConnecting := 0 \<rparr>"
  have conn: "kodi_connected ?c1" by (simp add: kodi_connected_def open_client_def)
  have fb: "fallback ?c1 \<noteq> None" using Suc.prems(1) by (simp add: open_client_def)
  have uf: "useFallback ?c1 err =
      (True, ?c1\<lparr> failedAttemptsAtConnecting := 1, usingFallback := \<not> usingFallback ?c1 \<rparr>)"
    using assms(1) fb by (simp add: useFallback_first_refusal)
  let ?c2 = "close (?c1\<lparr> failedAttemptsAtConnecting := 1, usingFallback := \<not> usingFallback ?c1 \<rparr>)"
  have step: "call c command args
            \<lparr> opens = replicate (Suc (Suc n)) None,
              requests = replicate (Suc n) (Inl err) @ [Inr v] \<rparr>
        = call ?c2 command args
            \<lparr> opens = replicate (Suc n) None, requests = replicate n (Inl err) @ [Inr v] \<rparr>"
    using Suc.prems(2) conn uf
    by (simp add: call_after_open ensure_open_connected del: call.simps)
       (simp add: ensure_open_connected)
  have "fallback ?c2 \<noteq> None" "\<not> kodi_connected ?c2"
    using Suc.prems(1) by (simp_all add: close_def open_client_def kodi_connected_def)
  then show ?case
    using Suc.IH [of ?c2] step by simp
qed

text \<open>
  Claim C5, on the client with a fallback address, every \<open>open\<close> succeeding: a request
  refused on the primary and refused again on the fallback is not raised. The client
  toggles back to the primary, and the third request's answer is what the call returns,
  with \<open>usingFallback\<close> false again and the counter at 0.
\<close>

theorem call_second_refusal_not_raised:
  "call kodi_with_fallback ''Player.GetActivePlayers'' (JObj [])
     \<lparr> opens = [None, None, None], requests = [Inl refused, Inl refused, Inr (JArr [])] \<rparr>
   = (Returned (JArr []), open_client kodi_with_fallback, \<lparr> opens = [], requests = [] \<rparr>)"
  by (simp add: kodi_with_fallback_def refused_def kodi_defs)

subsection \<open>The transport that is not ready\<close>











section \<open>Properties of the MPV receiver\<close>

lemmas receiver_defs = status_def transport_def emit_def release_def record_action_def
  sessions_get_def sessions_release_def no_media_def play_def play_setup_def stop_def
  connect_def getStreamUrl_def

lemmas fixture_defs = video_stream_def subtitles_stream_def movie_session_def
  subtitles_only_session_def quiet_env_def unreachable_env_def failing_listener_env_def
  idle_receiver_def

lemma status_trace: "trace (snd (status e r)) = trace r @ [Transport TStatus]"
  by (simp add: status_def transport_def record_action_def split: option.splits sum.splits)

lemma status_keeps:
  "sessions (snd (status e r)) = sessions r" "current (snd (status e r)) = current r"
  by (simp_all add: status_def transport_def record_action_def split: option.splits sum.splits)

subsection \<open>status\<close>

text \<open>
  Claim C1, as the code has it: when the transport's status query resolves and reports
  nothing playing (no reply object, or one without a path), \<open>status\<close> returns the
  Stopped snapshot with null record and session, whatever the current session is. When
  the query is rejected, \<open>status\<close> has no handler for it and the rejection reaches the
  caller.
\<close>

theorem status_stopped_or_propagates:
  "(reply e TStatus = None \<and> no_media (status_reply e) \<longrightarrow>
      fst (status e r) = Inr (stopped_status (now e)) \<and>
      state (stopped_status (now e)) = Stopped \<and>
      session (media (stopped_status (now e))) = JNull \<and>
      record_of (media (stopped_status (now e))) = JNull) \<and>
   (reply e TStatus = Some err \<longrightarrow> fst (status e r) = Inl err)"
  by (simp add: status_def transport_def stopped_status_def)

text \<open>C1 on the quiet device (Stopped snapshot) and on the unreachable one (the rejection).\<close>

theorem status_stopped_or_propagates_witness:
  "reply quiet_env TStatus = None \<and> no_media (status_reply quiet_env) \<and>
   fst (status quiet_env idle_receiver) = Inr (stopped_status 0) \<and>
   reply unreachable_env TStatus = Some (Failure ''ECONNREFUSED'') \<and>
   fst (status unreachable_env idle_receiver) = Inl (Failure ''ECONNREFUSED'')"
  using status_stopped_or_propagates [where e = quiet_env and r = idle_receiver]
    status_stopped_or_propagates
      [where e = unreachable_env and r = idle_receiver and err = "Failure ''ECONNREFUSED''"]
  by (simp add: quiet_env_def unreachable_env_def no_media_def)

text \<open>
  C1 as written, "never raises", fails on the unreachable device: the receiver has no
  current session, the status query is rejected, and so is \<open>status\<close>.
\<close>

theorem status_raises_counterexample:
  "current idle_receiver = None \<and>
   fst (status unreachable_env idle_receiver) = Inl (Failure ''ECONNREFUSED'')"
  by (simp add: receiver_defs fixture_defs)

text \<open>
  A second way for \<open>status\<close> to raise: the device reports a path while the receiver has
  no current session, and the registry cannot resolve \<open>null\<close>.
\<close>

lemma status_without_session_raises:
  assumes "reply e TStatus = None" and "\<not> no_media (status_reply e)" and "current r = None"
  shows "fst (status e r) = Inl SessionNotFoundError"
  using assms
  by (simp add: status_def transport_def record_action_def sessions_get_def no_media_def
        split: option.splits)

subsection \<open>connect\<close>

text \<open>
  Claim C10, as the code has it: \<open>connect\<close> calls the transport's \<open>open\<close> exactly when
  the connection already reports connected. When it reports not connected nothing is
  attempted and the result is \<open>true\<close>. When \<open>open\<close> is attempted and rejected, the
  rejection reaches the caller; every value \<open>connect\<close> does resolve to is \<open>true\<close>.
\<close>

theorem connect_opens_only_when_connected:
  "(\<not> reports_connected e \<longrightarrow> connect e r = (Inr True, r)) \<and>
   (reports_connected e \<longrightarrow>
      trace (snd (connect e r)) = trace r @ [Transport TOpen] \<and>
      fst (connect e r) = (case reply e TOpen of None \<Rightarrow> Inr True | Some err \<Rightarrow> Inl err)) \<and>
   (\<forall>b. fst (connect e r) = Inr b \<longrightarrow> b)"
  by (auto simp add: connect_def transport_def record_action_def split: option.splits)

text \<open>C10 on a connection that reports not connected, and on one that reports connected.\<close>

theorem connect_opens_only_when_connected_witness:
  "\<not> reports_connected quiet_env \<and>
   connect quiet_env idle_receiver = (Inr True, idle_receiver) \<and>
   reports_connected (quiet_env\<lparr> reports_connected := True \<rparr>) \<and>
   connect (quiet_env\<lparr> reports_connected := True \<rparr>) idle_receiver
     = (Inr True, idle_receiver\<lparr> trace := [Transport TOpen] \<rparr>)"
  using connect_opens_only_when_connected [of quiet_env idle_receiver]
    connect_opens_only_when_connected [of "quiet_env\<lparr> reports_connected := True \<rparr>" idle_receiver]
  by (simp add: receiver_defs fixture_defs)

text \<open>
  C10 as written, "always resolves to true", fails when the connection reports connected
  and the \<open>open\<close> that follows is rejected.
\<close>

theorem connect_raises_counterexample:
  "reports_connected (unreachable_env\<lparr> reports_connected := True \<rparr>) \<and>
   fst (connect (unreachable_env\<lparr> reports_connected := True \<rparr>) idle_receiver)
     = Inl (Failure ''ECONNREFUSED'')"
  by (simp add: receiver_defs fixture_defs)

subsection \<open>stop\<close>

text \<open>
  Claim C7: after a \<open>stop\<close> that returns a status, the session that was current is no
  longer bound in the registry, the current pointer is null, the receiver has done, in
  this order, the transport stop, the registry release, the 'stop' notification with the
  id that was current, and the status query; the status returned is Stopped with a null
  session, and so is every status a later \<open>status\<close> call on that receiver returns.
\<close>

theorem stop_releases_and_reports_stopped:
  assumes "stop e r = (Inr st, r')"
  shows "sessions r' = sessions_release (sessions r) (current r) \<and>
     (\<forall>sid. current r = Some sid \<longrightarrow> sessions r' sid = None) \<and>
     current r' = None \<and>
     trace r' = trace r @ [Transport TStop, Release (current r), Emit ''stop'' (current r),
                            Transport TStatus] \<and>
     state st = Stopped \<and> session (media st) = JNull \<and>
     (\<forall>e' st'. fst (status e' r') = Inr st' \<longrightarrow>
        state st' = Stopped \<and> session (media st') = JNull)"
  using assms
  by (auto simp add: receiver_defs stopped_status_def Let_def
       split: option.splits sum.splits if_splits prod.splits)

text \<open>C7 on the quiet device, with session A current.\<close>

theorem stop_releases_and_reports_stopped_witness:
  "stop quiet_env (idle_receiver\<lparr> current := Some ''A'' \<rparr>)
     = (Inr (stopped_status 0),
        idle_receiver\<lparr> sessions := [''B'' \<mapsto> movie_session, ''S'' \<mapsto> subtitles_only_session],
           trace := [Transport TStop, Release (Some ''A''), Emit ''stop'' (Some ''A''),
                     Transport TStatus] \<rparr>)
   \<and> state (stopped_status 0) = Stopped"
  using stop_releases_and_reports_stopped
    [of quiet_env "idle_receiver\<lparr> current := Some ''A'' \<rparr>" "stopped_status 0"
        "idle_receiver\<lparr> sessions := [''B'' \<mapsto> movie_session, ''S'' \<mapsto> subtitles_only_session],
           trace := [Transport TStop, Release (Some ''A''), Emit ''stop'' (Some ''A''),
                     Transport TStatus] \<rparr>"]
  by (auto simp add: receiver_defs fixture_defs Let_def stopped_status_def fun_upd_def)

subsection \<open>play\<close>

lemma play_setup_ok_current:
  assumes "play_setup e sid video subtitles r = (None, r1)"
  shows "current r1 = Some sid"
  using assms
  by (cases video)
     (auto simp add: play_setup_def transport_def emit_def record_action_def Let_def
        split: option.splits)

lemma play_success_sets_current:
  assumes "fst (play e sid r) = Inr st"
  shows "current (snd (play e sid r)) = Some sid"
proof (cases "sessions_get (sessions r) (Some sid)")
  case (Inl err)
  with assms show ?thesis by (simp add: play_def)
next
  case (Inr info)
  obtain res r1 where su:
    "play_setup e sid (find (\<lambda>s. stream_type s = Video) (streams info))
       (find (\<lambda>s. stream_type s = Subtitles) (streams info)) r = (res, r1)"
    by (cases "play_setup e sid (find (\<lambda>s. stream_type s = Video) (streams info))
       (find (\<lambda>s. stream_type s = Subtitles) (streams info)) r")
  show ?thesis
  proof (cases res)
    case None
    with Inr su have "play e sid r = status e r1" by (simp add: play_def)
    moreover from None su have "current r1 = Some sid"
      using play_setup_ok_current by blast
    ultimately show ?thesis by (simp add: status_keeps)
  next
    case (Some err)
    with Inr su assms show ?thesis by (simp add: play_def Let_def)
  qed
qed

lemma play_setup_ok_trace:
  assumes "play_setup e sid video subtitles r = (None, r1)"
  shows "\<exists>new. trace r1 = trace r @ new \<and> Release (Some sid) \<notin> set new"
  using assms
  by (cases video)
     (auto simp add: play_setup_def transport_def emit_def release_def record_action_def Let_def
        split: option.splits if_splits)

lemma play_success_no_self_release:
  assumes "fst (play e sid r) = Inr st"
  shows "\<exists>new. trace (snd (play e sid r)) = trace r @ new \<and> Release (Some sid) \<notin> set new"
proof (cases "sessions_get (sessions r) (Some sid)")
  case (Inl err)
  with assms show ?thesis by (simp add: play_def)
next
  case (Inr info)
  obtain res r1 where su:
    "play_setup e sid (find (\<lambda>s. stream_type s = Video) (streams info))
       (find (\<lambda>s. stream_type s = Subtitles) (streams info)) r = (res, r1)"
    by (cases "play_setup e sid (find (\<lambda>s. stream_type s = Video) (streams info))
       (find (\<lambda>s. stream_type s = Subtitles) (streams info)) r")
  show ?thesis
  proof (cases res)
    case None
    with Inr su have eq: "play e sid r = status e r1" by (simp add: play_def)
    from None su obtain new where "trace r1 = trace r @ new" "Release (Some sid) \<notin> set new"
      using play_setup_ok_trace by blast
    then have "trace (snd (play e sid r)) = trace r @ (new @ [Transport TStatus])"
      "Release (Some sid) \<notin> set (new @ [Transport TStatus])"
      by (simp_all add: eq status_trace)
    then show ?thesis by blast
  next
    case (Some err)
    with Inr su assms show ?thesis by (simp add: play_def Let_def)
  qed
qed

lemma play_setup_displaces:
  assumes "current r = Some a" and "a \<noteq> b"
      and "reply e (TPlay (getStreamUrl e b v) (map_option (getStreamUrl e b) subs)) = None"
      and "emit_reply e ''play'' = None"
  shows "play_setup e b (Some v) subs r =
           (None, r\<lparr> sessions := sessions_release (sessions r) (Some a), current := Some b,
                      trace := trace r @ [Release (Some a),
                         Transport (TPlay (getStreamUrl e b v) (map_option (getStreamUrl e b) subs)),
                         Emit ''play'' (Some b)] \<rparr>)"
  using assms
  by (simp add: play_setup_def transport_def emit_def release_def record_action_def Let_def)

text \<open>
  Claim C4, as the code has it: \<open>play\<close> on a session without a video stream fails with
  the error for unsupported media and makes no transport call, but the \<open>throw\<close> is inside
  the \<open>try\<close> block, so the handler runs: the session is released from the registry, and
  the current pointer is cleared when it pointed at that session (it is untouched
  otherwise).
\<close>

theorem play_no_video:
  assumes "sessions_get (sessions r) (Some sid) = Inr info"
      and "\<forall>s \<in> set (streams info). stream_type s \<noteq> Video"
  shows "play e sid r =
           (Inl (Error ''Trying to play media with no video stream is not currently supported.''),
            r\<lparr> sessions := sessions_release (sessions r) (Some sid),
               current := (if current r = Some sid then None else current r),
               trace := trace r @ [Release (Some sid)] \<rparr>)"
proof -
  have "find (\<lambda>s. stream_type s = Video) (streams info) = None"
    using assms(2) by (simp add: find_None_iff)
  with assms(1) show ?thesis
    by (simp add: play_def play_setup_def release_def record_action_def Let_def)
qed

text \<open>C4 on the session that only has subtitles.\<close>

theorem play_no_video_witness:
  "sessions_get (sessions idle_receiver) (Some ''S'') = Inr subtitles_only_session \<and>
   map stream_type (streams subtitles_only_session) = [Subtitles] \<and>
   play quiet_env ''S'' idle_receiver =
     (Inl (Error ''Trying to play media with no video stream is not currently supported.''),
      idle_receiver\<lparr> sessions := [''A'' \<mapsto> movie_session, ''B'' \<mapsto> movie_session],
                     trace := [Release (Some ''S'')] \<rparr>)"
  using play_no_video [of idle_receiver "''S''" subtitles_only_session quiet_env]
  by (auto simp add: receiver_defs fixture_defs fun_upd_def)

text \<open>
  C4 as written, "all receiver state is left untouched", fails: the session was bound
  before the call and is not bound after it.
\<close>

theorem play_no_video_counterexample:
  "sessions idle_receiver ''S'' = Some subtitles_only_session \<and>
   sessions (snd (play quiet_env ''S'' idle_receiver)) ''S'' = None"
  by (simp add: receiver_defs fixture_defs)

text \<open>
  Claim C2, as the code has it: when \<open>play\<close> fails inside its \<open>try\<close> block after the
  current pointer was set to the new session (the transport accepted the play command and
  the 'play' notification threw), the handler releases the new session, sets the current
  pointer to null, whatever it was before the call, and throws the error again.
\<close>

theorem play_failure_after_pointer_set:
  assumes "sessions_get (sessions r) (Some sid) = Inr info"
      and "find (\<lambda>s. stream_type s = Video) (streams info) = Some v"
      and "\<forall>url subs. reply e (TPlay url subs) = None"
      and "emit_reply e ''play'' = Some err"
  shows "fst (play e sid r) = Inl err \<and>
         current (snd (play e sid r)) = None \<and>
         sessions (snd (play e sid r)) sid = None \<and>
         last (trace (snd (play e sid r))) = Release (Some sid)"
  using assms
  by (simp add: play_def play_setup_def transport_def emit_def release_def record_action_def
        sessions_release_def Let_def)

text \<open>C2 on the idle receiver, with the listener that throws.\<close>

theorem play_failure_after_pointer_set_witness:
  "sessions_get (sessions idle_receiver) (Some ''B'') = Inr movie_session \<and>
   find (\<lambda>s. stream_type s = Video) (streams movie_session) = Some video_stream \<and>
   (\<forall>url subs. reply failing_listener_env (TPlay url subs) = None) \<and>
   emit_reply failing_listener_env ''play'' = Some (Failure ''listener failed'') \<and>
   fst (play failing_listener_env ''B'' idle_receiver) = Inl (Failure ''listener failed'') \<and>
   current (snd (play failing_listener_env ''B'' idle_receiver)) = None"
  using play_failure_after_pointer_set [of idle_receiver "''B''" movie_session video_stream
      failing_listener_env "Failure ''listener failed''"]
  by (simp add: sessions_get_def fixture_defs)

text \<open>
  C2 as written, "the current pointer equals its prior value again", fails when the
  prior value is a session: with A current, a \<open>play\<close> of B that fails after the pointer
  was set leaves the pointer null, not A.
\<close>

theorem play_pointer_not_restored_counterexample:
  "current (idle_receiver\<lparr> current := Some ''A'' \<rparr>) = Some ''A'' \<and>
   play failing_listener_env ''B'' (idle_receiver\<lparr> current := Some ''A'' \<rparr>)
     = (Inl (Failure ''listener failed''),
        idle_receiver\<lparr> sessions := [''S'' \<mapsto> subtitles_only_session], current := None,
           trace := [Release (Some ''A''), Transport (TPlay ''http://localhost:3030/stream'' None),
                     Emit ''play'' (Some ''B''), Release (Some ''B'')] \<rparr>)"
  by (auto simp add: receiver_defs fixture_defs fun_upd_def)

text \<open>
  The status query at the end of \<open>play\<close> is outside the \<open>try\<close> block: when it is
  rejected, \<open>play\<close> fails with the new session still current and still bound.
\<close>

lemma play_status_failure_keeps_session:
  assumes "sessions_get (sessions r) (Some sid) = Inr info"
      and "find (\<lambda>s. stream_type s = Video) (streams info) = Some v"
      and "\<forall>url subs. reply e (TPlay url subs) = None"
      and "emit_reply e ''play'' = None"
      and "reply e TStatus = Some err"
  shows "fst (play e sid r) = Inl err \<and>
         current (snd (play e sid r)) = Some sid \<and>
         sessions (snd (play e sid r)) sid = Some info"
  using assms
  by (auto simp add: play_def play_setup_def status_def transport_def emit_def release_def
        record_action_def sessions_release_def sessions_get_def Let_def
        split: option.splits)

text \<open>
  Claim C3, as the code has it: after a successful \<open>play\<close> of A, a \<open>play\<close> of a
  different session B whose setup succeeds (B resolves to a video stream, the transport
  accepts the play command, the notification is delivered) releases A from the registry
  exactly once over the two calls and leaves B current. What the receiver does during
  the second call is, in this order: the registry release of A, the transport play of B,
  the 'play' notification, the status query. No transport stop is issued for A.
\<close>

theorem play_displaces_previous:
  assumes "fst (play eA a r0) = Inr stA"
      and "a \<noteq> b"
      and "sessions_get (sessions (snd (play eA a r0))) (Some b) = Inr info"
      and "find (\<lambda>s. stream_type s = Video) (streams info) = Some v"
      and "reply eB (TPlay (getStreamUrl eB b v)
              (map_option (getStreamUrl eB b)
                 (find (\<lambda>s. stream_type s = Subtitles) (streams info)))) = None"
      and "emit_reply eB ''play'' = None"
  shows "trace (snd (play eB b (snd (play eA a r0)))) =
           trace (snd (play eA a r0)) @
             [Release (Some a),
              Transport (TPlay (getStreamUrl eB b v)
                 (map_option (getStreamUrl eB b)
                    (find (\<lambda>s. stream_type s = Subtitles) (streams info)))),
              Emit ''play'' (Some b), Transport TStatus] \<and>
         count_list (drop (length (trace r0))
                       (trace (snd (play eB b (snd (play eA a r0)))))) (Release (Some a)) = 1 \<and>
         Transport TStop \<notin> set (drop (length (trace (snd (play eA a r0))))
                                   (trace (snd (play eB b (snd (play eA a r0)))))) \<and>
         sessions (snd (play eB b (snd (play eA a r0)))) a = None \<and>
         current (snd (play eB b (snd (play eA a r0)))) = Some b"
proof -
  define r1 where "r1 = snd (play eA a r0)"
  define new where "new = [Release (Some a),
              Transport (TPlay (getStreamUrl eB b v)
                 (map_option (getStreamUrl eB b)
                    (find (\<lambda>s. stream_type s = Subtitles) (streams info)))),
              Emit ''play'' (Some b), Transport TStatus]"
  have cur: "current r1 = Some a"
    unfolding r1_def using assms(1) by (rule play_success_sets_current)
  obtain first where first: "trace r1 = trace r0 @ first" "Release (Some a) \<notin> set first"
    unfolding r1_def using play_success_no_self_release [OF assms(1)] by blast
  have "play eB b r1 =
          status eB (r1\<lparr> sessions := sessions_release (sessions r1) (Some a), current := Some b,
                      trace := trace r1 @ [Release (Some a),
                         Transport (TPlay (getStreamUrl eB b v) (map_option (getStreamUrl eB b)
                            (find (\<lambda>s. stream_type s = Subtitles) (streams info)))),
                         Emit ''play'' (Some b)] \<rparr>)"
    using assms(3,4) play_setup_displaces [OF cur assms(2) assms(5) assms(6)]
    by (simp add: play_def r1_def)
  then have tr: "trace (snd (play eB b r1)) = trace r1 @ new"
    and rest: "sessions (snd (play eB b r1)) a = None" "current (snd (play eB b r1)) = Some b"
    by (simp_all add: status_trace status_keeps sessions_release_def new_def)
  have "drop (length (trace r0)) (trace (snd (play eB b r1))) = first @ new"
    using tr first(1) by simp
  moreover have "count_list first (Release (Some a)) = 0"
    using first(2) by (simp add: count_list_0_iff)
  moreover have "count_list new (Release (Some a)) = 1"
    by (simp add: new_def)
  ultimately have once: "count_list (drop (length (trace r0)) (trace (snd (play eB b r1))))
      (Release (Some a)) = 1"
    by simp
  have "drop (length (trace r1)) (trace (snd (play eB b r1))) = new"
    using tr by simp
  moreover have "Transport TStop \<notin> set new"
    by (simp add: new_def)
  ultimately show ?thesis
    using tr rest once unfolding r1_def [symmetric] new_def [symmetric] by simp
qed

text \<open>C3 on the idle receiver: A is played, then B.\<close>

theorem play_displaces_previous_witness:
  "fst (play quiet_env ''A'' idle_receiver) = Inr (stopped_status 0) \<and> ''A'' \<noteq> ''B'' \<and>
   sessions_get (sessions (snd (play quiet_env ''A'' idle_receiver))) (Some ''B'')
     = Inr movie_session \<and>
   find (\<lambda>s. stream_type s = Video) (streams movie_session) = Some video_stream \<and>
   emit_reply quiet_env ''play'' = None \<and>
   current (snd (play quiet_env ''B'' (snd (play quiet_env ''A'' idle_receiver)))) = Some ''B'' \<and>
   sessions (snd (play quiet_env ''B'' (snd (play quiet_env ''A'' idle_receiver)))) ''A'' = None"
  using play_displaces_previous [of quiet_env "''A''" idle_receiver "stopped_status 0" "''B''"
           movie_session video_stream quiet_env]
  by (simp add: receiver_defs fixture_defs)

text \<open>
  C3 as written, "with a transport-level stop attempted before the registry release",
  fails: both calls succeed, and the receiver has made no transport stop at all.
\<close>

theorem play_displaces_without_stop_counterexample:
  "\<not> isl (fst (play quiet_env ''A'' idle_receiver)) \<and>
   \<not> isl (fst (play quiet_env ''B'' (snd (play quiet_env ''A'' idle_receiver)))) \<and>
   trace (snd (play quiet_env ''B'' (snd (play quiet_env ''A'' idle_receiver)))) =
     [Transport (TPlay ''http://localhost:3030/stream'' None), Emit ''play'' (Some ''A''),
      Transport TStatus,
      Release (Some ''A''), Transport (TPlay ''http://localhost:3030/stream'' None),
      Emit ''play'' (Some ''B''), Transport TStatus] \<and>
   Transport TStop \<notin> set (trace (snd (play quiet_env ''B''
                                        (snd (play quiet_env ''A'' idle_receiver)))))"
  by (simp add: receiver_defs fixture_defs)

subsection \<open>callCommand\<close>










text \<open>
  The membership test does not ask whether the member can be called: for a data property
  the class declares, the call that follows is a \<open>TypeError\<close>.
\<close>

lemma callCommand_data_property:
  assumes "map_of declared_members name = Some Data" and "spread args = Some as"
  shows "callCommand rt e name args r = Some (Inl TypeError, r)"
  using assms by (subst callCommand.simps) (simp add: lookup_member_def)

section \<open>Properties of the JSON-RPC query helper\<close>

text \<open>
  Claim C8, as the code has it: a query without a kind, or with \<open>returnResponse\<close>,
  returns the raw response without parsing it. When a kind is given and the raw response
  is not asked for, a reply that carries an error object raises an error with the
  device's message, and a reply without an error object whose result carries limits with
  \<open>start \<ge> total\<close> yields the empty collection.
\<close>

theorem query_normalizes_parsed_reply:
  "((kind = None \<or> kind = Some [] \<or> returnResponse opts) \<longrightarrow>
      query JSON_parse (Inr response) kind opts = Inr (Response response)) \<and>
   (kind = Some k \<and> k \<noteq> [] \<and> \<not> returnResponse opts \<and> JSON_parse (body response) = Inr b \<longrightarrow>
      (body_error b = Some er \<longrightarrow>
         query JSON_parse (Inr response) kind opts = Inl (Error (error_message er))) \<and>
      (body_error b = None \<and> body_result b = Some res \<and> limits res = Some l \<and>
       limits_start l \<ge> limits_total l \<longrightarrow>
         query JSON_parse (Inr response) kind opts = Inr (Value (JArr []))))"
  by (auto simp add: query_def)

text \<open>
  C8 on a reply with an error object, on a reply with an empty page of movies, and on
  queries that ask for the raw response or give an empty kind.
\<close>

theorem query_normalizes_parsed_reply_witness:
  "query parse_replies (Inr \<lparr> statusCode = 200, body = ''failed'' \<rparr>) (Some ''movie'')
     plain_options = Inl (Error ''Invalid params.'') \<and>
   query parse_replies (Inr \<lparr> statusCode = 200, body = ''empty page'' \<rparr>) (Some ''movie'')
     plain_options = Inr (Value (JArr [])) \<and>
   query parse_replies (Inr \<lparr> statusCode = 200, body = ''failed'' \<rparr>) (Some ''movie'')
     (plain_options\<lparr> returnResponse := True \<rparr>)
     = Inr (Response \<lparr> statusCode = 200, body = ''failed'' \<rparr>) \<and>
   query parse_replies (Inr \<lparr> statusCode = 200, body = ''failed'' \<rparr>) (Some [])
     plain_options = Inr (Response \<lparr> statusCode = 200, body = ''failed'' \<rparr>)"
  using query_normalizes_parsed_reply [where kind = "Some ''movie''" and k = "''movie''"
          and opts = plain_options and JSON_parse = parse_replies
          and response = "\<lparr> statusCode = 200, body = ''failed'' \<rparr>" and b = failed_reply
          and er = "\<lparr> error_message = ''Invalid params.'' \<rparr>"]
     query_normalizes_parsed_reply [where kind = "Some ''movie''" and k = "''movie''"
          and opts = plain_options and JSON_parse = parse_replies
          and response = "\<lparr> statusCode = 200, body = ''empty page'' \<rparr>" and b = empty_page
          and res = "\<lparr> limits = Some \<lparr> limits_start = 0, limits_total = 0 \<rparr>, members = [] \<rparr>"
          and l = "\<lparr> limits_start = 0, limits_total = 0 \<rparr>"]
     query_normalizes_parsed_reply [where kind = "Some ''movie''"
          and opts = "plain_options\<lparr> returnResponse := True \<rparr>" and JSON_parse = parse_replies
          and response = "\<lparr> statusCode = 200, body = ''failed'' \<rparr>"]
     query_normalizes_parsed_reply [where kind = "Some []"
          and opts = plain_options and JSON_parse = parse_replies
          and response = "\<lparr> statusCode = 200, body = ''failed'' \<rparr>"]
  by (simp add: parse_replies_def plain_options_def empty_page_def failed_reply_def)

text \<open>
  C8 as written, "for every reply whose limits have \<open>start \<ge> total\<close> the query returns
  an empty collection", fails for a query without a kind (as \<open>sync\<close> issues it): the
  reply with the empty page comes back as the raw response.
\<close>

theorem query_raw_response_counterexample:
  "parse_replies (body \<lparr> statusCode = 200, body = ''empty page'' \<rparr>) = Inr empty_page \<and>
   query parse_replies (Inr \<lparr> statusCode = 200, body = ''empty page'' \<rparr>) None plain_options
     = Inr (Response \<lparr> statusCode = 200, body = ''empty page'' \<rparr>)"
  by (simp add: query_def parse_replies_def plain_options_def)

end
